theory Spec2Isabelle
  imports Main "HOL-Library.Word"
begin

section \<open>The frame cryptor control plane of webrtc-sys\<close>

text \<open>
  A shallow embedding of \<^verbatim>\<open>webrtc-sys/src/frame_cryptor.cpp\<close>. One value of type
  \<open>world\<close> holds one \<^verbatim>\<open>FrameCryptor\<close> object together with the objects it points to:
  the frame transformer it created, the sender or receiver it was built for, and the
  observer bridges it allocated. Every method of the source is a function from the world
  before the call to the world after it, or to an error where the call does not come back.
\<close>

subsection \<open>Enumerations\<close>

text \<open>
  \<^verbatim>\<open>livekit::Algorithm\<close> is a C++ enum class shared with Rust. Besides its two
  enumerators a variable of the type can hold any other value of the underlying integer
  type; \<open>Algorithm_other raw\<close> stands for such a value.
\<close>

datatype Algorithm = AesGcm | AesCbc | Algorithm_other nat

datatype rtc_Algorithm = kAesGcm | kAesCbc

datatype MediaType = kAudioFrame | kVideoFrame

datatype FrameCryptionState =
  Ok | EncryptionFailed | DecryptionFailed | MissingKey | KeyRatcheted | InternalError

text \<open>The \<^verbatim>\<open>switch\<close> of lines 26-36, its \<^verbatim>\<open>default\<close> branch last.\<close>

fun AlgorithmToFrameCryptorAlgorithm :: "Algorithm \<Rightarrow> rtc_Algorithm" where
  "AlgorithmToFrameCryptorAlgorithm AesGcm = kAesGcm"
| "AlgorithmToFrameCryptorAlgorithm AesCbc = kAesCbc"
| "AlgorithmToFrameCryptorAlgorithm _ = kAesGcm"

subsection \<open>Objects\<close>

type_synonym int32_t = "32 word"

text \<open>Addresses of heap objects; \<open>None\<close> of an \<open>addr option\<close> is the null pointer.\<close>

type_synonym addr = nat

text \<open>An application observer (the boxed \<^verbatim>\<open>RtcFrameCryptorObserverWrapper\<close>), by identity.\<close>

type_synonym RtcFrameCryptorObserverWrapper = nat

text \<open>The native key provider a \<^verbatim>\<open>KeyProvider\<close> wraps, by identity.\<close>

type_synonym KeyProvider = nat

text \<open>
  What can keep a call from returning: a null pointer is dereferenced, a thread asks for
  a mutex it already holds (\<^verbatim>\<open>webrtc::Mutex\<close> is not reentrant), or a deleted object is
  used.
\<close>

datatype error = NullDeref | SelfDeadlock | UseAfterFree

record MediaStreamTrack =
  kind :: string

text \<open>What a frame transformer slot of a sender or receiver refers to.\<close>

datatype transformer_ref = E2ee_transformer | Foreign_transformer nat

text \<open>
  Modelled from the spec: the sender and the receiver of the media pipeline, external to
  the repository. Section 6 gives them a track (possibly absent) whose kind is a string,
  and one slot for a frame transformer that an attach call overwrites.
\<close>

record RtpSenderInterface =
  s_track :: "MediaStreamTrack option"
  encoder_to_packetizer :: "transformer_ref option"

record RtpReceiverInterface =
  r_track :: "MediaStreamTrack option"
  depacketizer_to_decoder :: "transformer_ref option"

text \<open>
  Modelled from the spec: \<^verbatim>\<open>webrtc::FrameCryptorTransformer\<close>, external to the
  repository. Sections 3 and 4.4 to 4.6 describe it as the holder of the enabled flag,
  the key index and one observer pointer, each written by its setter and read back by its
  getter.
\<close>

record FrameCryptorTransformer =
  t_participant_id :: string
  t_media_type :: MediaType
  t_algorithm :: rtc_Algorithm
  t_key_provider :: KeyProvider
  t_enabled :: bool
  t_key_index :: int32_t
  t_observer :: "addr option"

text \<open>
  The state a transformer is in when its constructor returns is not fixed by the
  repository; the constructors below take it as a parameter.
\<close>

record transformer_defaults =
  default_enabled :: bool
  default_key_index :: int32_t

text \<open>
  \<^verbatim>\<open>NativeFrameCryptorObserver\<close>: the bridge owns the application observer. Its back
  pointer \<^verbatim>\<open>fc_\<close> always refers to the one FrameCryptor of the world and is left implicit.
\<close>

record NativeFrameCryptorObserver =
  b_observer :: RtcFrameCryptorObserverWrapper

text \<open>
  The calls made on the external collaborators, in the order they are made. The trace is
  not a variable of the program: it records the effects the claims speak about.
\<close>

datatype call =
  SetEncoderToPacketizerFrameTransformer
| SetDepacketizerToDecoderFrameTransformer
| SetEnabled bool
| SetKeyIndex int32_t
| SetFrameCryptorTransformerObserver "addr option"

text \<open>
  The members of FrameCryptor are \<open>fc_participant_id\<close>, \<open>fc_key_provider\<close>,
  \<open>fc_observer\<close> (the \<^verbatim>\<open>std::unique_ptr\<close> \<^verbatim>\<open>observer_\<close>) and \<open>fc_mutex\<close>
  (\<^verbatim>\<open>mutex_\<close>; true while held). \<open>transformer\<close> is the object \<^verbatim>\<open>e2ee_transformer_\<close>
  points to, \<open>sender\<close> and \<open>receiver\<close> the objects \<^verbatim>\<open>sender_\<close> and \<^verbatim>\<open>receiver_\<close>
  point to (\<open>None\<close> for the null one). \<open>bridges\<close> is the heap of bridge objects,
  \<open>next_addr\<close> the next free address. \<open>delivered\<close> lists the callbacks the application
  observers have received.
\<close>

record world =
  fc_participant_id :: string
  fc_key_provider :: KeyProvider
  fc_observer :: "addr option"
  fc_mutex :: bool
  transformer :: FrameCryptorTransformer
  sender :: "RtpSenderInterface option"
  receiver :: "RtpReceiverInterface option"
  bridges :: "addr \<Rightarrow> NativeFrameCryptorObserver option"
  next_addr :: addr
  calls :: "call list"
  delivered :: "(RtcFrameCryptorObserverWrapper \<times> string \<times> FrameCryptionState) list"

text \<open>Sequencing of calls: the first one that does not return ends the run.\<close>

fun and_then :: "error + 'a \<Rightarrow> ('a \<Rightarrow> error + 'b) \<Rightarrow> error + 'b" where
  "and_then (Inl e) f = Inl e"
| "and_then (Inr x) f = f x"

subsection \<open>Methods of the transformer\<close>

text \<open>
  Modelled from the spec: the setters of \<^verbatim>\<open>webrtc::FrameCryptorTransformer\<close>, which the
  repository calls and does not define. Each stores its argument in the field its getter
  reads (sections 4.4 to 4.6), and the call is added to the trace.
\<close>

definition transformer_SetEnabled :: "bool \<Rightarrow> world \<Rightarrow> world" where
  "transformer_SetEnabled b w =
     w\<lparr>transformer := (transformer w)\<lparr>t_enabled := b\<rparr>, calls := calls w @ [SetEnabled b]\<rparr>"

definition transformer_SetKeyIndex :: "int32_t \<Rightarrow> world \<Rightarrow> world" where
  "transformer_SetKeyIndex i w =
     w\<lparr>transformer := (transformer w)\<lparr>t_key_index := i\<rparr>, calls := calls w @ [SetKeyIndex i]\<rparr>"

definition transformer_SetObserver :: "addr option \<Rightarrow> world \<Rightarrow> world" where
  "transformer_SetObserver p w =
     w\<lparr>transformer := (transformer w)\<lparr>t_observer := p\<rparr>,
       calls := calls w @ [SetFrameCryptorTransformerObserver p]\<rparr>"

subsection \<open>Constructors (lines 59-95)\<close>

text \<open>
  \<^verbatim>\<open>sender->track()->kind()\<close> dereferences the track pointer with no check, so an
  absent track ends the constructor. Then the transformer is created, attached, and
  disabled, in this order.
\<close>

definition FrameCryptor_sender ::
  "transformer_defaults \<Rightarrow> string \<Rightarrow> rtc_Algorithm \<Rightarrow> KeyProvider \<Rightarrow> RtpSenderInterface
     \<Rightarrow> error + world" where
  "FrameCryptor_sender d participant_id algorithm key_provider sndr =
     (case s_track sndr of
        None \<Rightarrow> Inl NullDeref
      | Some trk \<Rightarrow>
          let mediaType = (if kind trk = ''audio'' then kAudioFrame else kVideoFrame);
              w0 = \<lparr>fc_participant_id = participant_id,
                    fc_key_provider = key_provider,
                    fc_observer = None,
                    fc_mutex = False,
                    transformer =
                      \<lparr>t_participant_id = participant_id, t_media_type = mediaType,
                       t_algorithm = algorithm, t_key_provider = key_provider,
                       t_enabled = default_enabled d, t_key_index = default_key_index d,
                       t_observer = None\<rparr>,
                    sender = Some sndr,
                    receiver = None,
                    bridges = (\<lambda>_. None),
                    next_addr = 0,
                    calls = [],
                    delivered = []\<rparr>;
              w1 = w0\<lparr>sender := Some (sndr\<lparr>encoder_to_packetizer := Some E2ee_transformer\<rparr>),
                      calls := calls w0 @ [SetEncoderToPacketizerFrameTransformer]\<rparr>
          in Inr (transformer_SetEnabled False w1))"

definition FrameCryptor_receiver ::
  "transformer_defaults \<Rightarrow> string \<Rightarrow> rtc_Algorithm \<Rightarrow> KeyProvider \<Rightarrow> RtpReceiverInterface
     \<Rightarrow> error + world" where
  "FrameCryptor_receiver d participant_id algorithm key_provider rcvr =
     (case r_track rcvr of
        None \<Rightarrow> Inl NullDeref
      | Some trk \<Rightarrow>
          let mediaType = (if kind trk = ''audio'' then kAudioFrame else kVideoFrame);
              w0 = \<lparr>fc_participant_id = participant_id,
                    fc_key_provider = key_provider,
                    fc_observer = None,
                    fc_mutex = False,
                    transformer =
                      \<lparr>t_participant_id = participant_id, t_media_type = mediaType,
                       t_algorithm = algorithm, t_key_provider = key_provider,
                       t_enabled = default_enabled d, t_key_index = default_key_index d,
                       t_observer = None\<rparr>,
                    sender = None,
                    receiver = Some rcvr,
                    bridges = (\<lambda>_. None),
                    next_addr = 0,
                    calls = [],
                    delivered = []\<rparr>;
              w1 = w0\<lparr>receiver := Some (rcvr\<lparr>depacketizer_to_decoder := Some E2ee_transformer\<rparr>),
                      calls := calls w0 @ [SetDepacketizerToDecoderFrameTransformer]\<rparr>
          in Inr (transformer_SetEnabled False w1))"

text \<open>The two factory functions of lines 153-173 translate the algorithm first.\<close>

definition new_frame_cryptor_for_rtp_sender ::
  "transformer_defaults \<Rightarrow> string \<Rightarrow> Algorithm \<Rightarrow> KeyProvider \<Rightarrow> RtpSenderInterface
     \<Rightarrow> error + world" where
  "new_frame_cryptor_for_rtp_sender d participant_id algorithm key_provider sndr =
     FrameCryptor_sender d participant_id (AlgorithmToFrameCryptorAlgorithm algorithm)
       key_provider sndr"

definition new_frame_cryptor_for_rtp_receiver ::
  "transformer_defaults \<Rightarrow> string \<Rightarrow> Algorithm \<Rightarrow> KeyProvider \<Rightarrow> RtpReceiverInterface
     \<Rightarrow> error + world" where
  "new_frame_cryptor_for_rtp_receiver d participant_id algorithm key_provider rcvr =
     FrameCryptor_receiver d participant_id (AlgorithmToFrameCryptorAlgorithm algorithm)
       key_provider rcvr"

subsection \<open>The mutex\<close>

text \<open>
  \<^verbatim>\<open>webrtc::MutexLock lock(&mutex_)\<close> takes the mutex at the start of a method and
  gives it back when the method returns. A method entered while the mutex is held by the
  calling thread itself waits for it forever.
\<close>

definition lock :: "world \<Rightarrow> world" where
  "lock w = w\<lparr>fc_mutex := True\<rparr>"

definition unlock :: "world \<Rightarrow> world" where
  "unlock w = w\<lparr>fc_mutex := False\<rparr>"

subsection \<open>Enabled flag and key index (lines 129-147)\<close>

definition set_enabled :: "bool \<Rightarrow> world \<Rightarrow> error + world" where
  "set_enabled enabled w =
     (if fc_mutex w then Inl SelfDeadlock
      else Inr (unlock (transformer_SetEnabled enabled (lock w))))"

text \<open>The two getters leave the world as it was once the mutex is given back.\<close>

definition enabled :: "world \<Rightarrow> error + bool" where
  "enabled w =
     (if fc_mutex w then Inl SelfDeadlock else Inr (t_enabled (transformer (lock w))))"

definition set_key_index :: "int32_t \<Rightarrow> world \<Rightarrow> error + world" where
  "set_key_index index w =
     (if fc_mutex w then Inl SelfDeadlock
      else Inr (unlock (transformer_SetKeyIndex index (lock w))))"

definition key_index :: "world \<Rightarrow> error + int32_t" where
  "key_index w =
     (if fc_mutex w then Inl SelfDeadlock else Inr (t_key_index (transformer (lock w))))"

subsection \<open>Observer registration (lines 99-127)\<close>

text \<open>
  \<^verbatim>\<open>observer_ = nullptr\<close> is \<^verbatim>\<open>unique_ptr::reset\<close>: the stored pointer is set to
  null first, and then the old object, if there was one, is deleted. Deleting a bridge
  runs \<^verbatim>\<open>~NativeFrameCryptorObserver\<close>, whose body is \<^verbatim>\<open>fc_->unregister_observer()\<close>,
  and then frees the object. The two functions call each other as in the source; the
  inner call finds the mutex held.
\<close>

function unregister_observer :: "world \<Rightarrow> error + world"
  and delete_NativeFrameCryptorObserver :: "addr \<Rightarrow> world \<Rightarrow> error + world"
where
  "unregister_observer w =
     (if fc_mutex w then Inl SelfDeadlock
      else
        (case (case fc_observer w of
                 None \<Rightarrow> Inr (lock w)
               | Some old \<Rightarrow>
                   delete_NativeFrameCryptorObserver old ((lock w)\<lparr>fc_observer := None\<rparr>)) of
           Inl e \<Rightarrow> Inl e
         | Inr w' \<Rightarrow> Inr (unlock (transformer_SetObserver None w'))))"
| "delete_NativeFrameCryptorObserver p w =
     (case unregister_observer w of
        Inl e \<Rightarrow> Inl e
      | Inr w' \<Rightarrow> Inr (w'\<lparr>bridges := (bridges w')(p := None)\<rparr>))"
  by pat_completeness auto
termination
  by (relation "measure (\<lambda>x. case x of
                   Inl w \<Rightarrow> if fc_mutex w then 0 else 2
                 | Inr (p, w) \<Rightarrow> if fc_mutex w then 1 else 3)")
     (auto simp: lock_def)

declare unregister_observer.simps [simp del]
declare delete_NativeFrameCryptorObserver.simps [simp del]

text \<open>
  \<^verbatim>\<open>std::make_unique\<close> allocates the bridge; the move assignment to \<^verbatim>\<open>observer_\<close>
  is again a reset: the new pointer is stored first, then the old bridge is deleted. The
  transformer is given \<^verbatim>\<open>observer_.get()\<close> as it is read after the assignment.
\<close>

definition register_observer :: "RtcFrameCryptorObserverWrapper \<Rightarrow> world \<Rightarrow> error + world" where
  "register_observer observer w =
     (if fc_mutex w then Inl SelfDeadlock
      else
        let w1 = lock w;
            p = next_addr w1;
            w2 = w1\<lparr>bridges := (bridges w1)(p \<mapsto> \<lparr>b_observer = observer\<rparr>),
                    next_addr := Suc p\<rparr>
        in (case (case fc_observer w2 of
                    None \<Rightarrow> Inr (w2\<lparr>fc_observer := Some p\<rparr>)
                  | Some old \<Rightarrow>
                      delete_NativeFrameCryptorObserver old (w2\<lparr>fc_observer := Some p\<rparr>)) of
              Inl e \<Rightarrow> Inl e
            | Inr w3 \<Rightarrow> Inr (unlock (transformer_SetObserver (fc_observer w3) w3))))"

text \<open>
  The bridge forwards a state change to the application observer it owns (lines
  122-127). The cast between the two state enumerations keeps the value.
\<close>

definition OnFrameCryptionStateChanged ::
  "addr \<Rightarrow> string \<Rightarrow> FrameCryptionState \<Rightarrow> world \<Rightarrow> error + world" where
  "OnFrameCryptionStateChanged p participant_id state w =
     (case bridges w p of
        None \<Rightarrow> Inl UseAfterFree
      | Some b \<Rightarrow> Inr (w\<lparr>delivered := delivered w @ [(b_observer b, participant_id, state)]\<rparr>))"

text \<open>
  Modelled from the spec: the transformer's side of the callback contract of section 4.6.
  On a cryption-state change the transformer calls the observer it was given, if any,
  with its participant id and the state.
\<close>

definition state_change_event :: "FrameCryptionState \<Rightarrow> world \<Rightarrow> error + world" where
  "state_change_event state w =
     (case t_observer (transformer w) of
        None \<Rightarrow> Inr w
      | Some p \<Rightarrow> OnFrameCryptionStateChanged p (t_participant_id (transformer w)) state w)"

subsection \<open>Destructor (line 97)\<close>

text \<open>
  The body of \<^verbatim>\<open>~FrameCryptor\<close> is empty, so destruction is the destruction of the
  members. Releasing the reference-counted pointers to the transformer, the key provider
  and the sender or receiver changes none of these objects: the slot of the sender or
  receiver keeps its reference to the transformer. Destroying \<^verbatim>\<open>observer_\<close> deletes
  the bridge if there is one. The standard library decides whether the stored pointer
  already reads null while the bridge's destructor runs: libc++ empties the pointer and
  then deletes, libstdc++ and the MSVC library delete and then empty it. Both orders are
  modelled.
\<close>

datatype unique_ptr_dtor = Empty_then_delete | Delete_then_empty

text \<open>
  Modelled from the spec: the order in which the members are destroyed. The header that
  declares them is not among the sources; following section 4.7 (the FrameCryptor
  outlives its bridge) \<^verbatim>\<open>observer_\<close> is destroyed while the mutex and the transformer
  pointer are still alive.
\<close>

definition FrameCryptor_dtor :: "unique_ptr_dtor \<Rightarrow> world \<Rightarrow> error + world" where
  "FrameCryptor_dtor order w =
     (case fc_observer w of
        None \<Rightarrow> Inr w
      | Some p \<Rightarrow>
          (case order of
             Empty_then_delete \<Rightarrow> delete_NativeFrameCryptorObserver p (w\<lparr>fc_observer := None\<rparr>)
           | Delete_then_empty \<Rightarrow>
               (case delete_NativeFrameCryptorObserver p w of
                  Inl e \<Rightarrow> Inl e
                | Inr w' \<Rightarrow> Inr (w'\<lparr>fc_observer := None\<rparr>))))"

subsection \<open>Sequences of calls\<close>

text \<open>A run of \<^verbatim>\<open>set_enabled\<close> calls, one per element of the list, in order.\<close>

fun set_enabled_calls :: "bool list \<Rightarrow> world \<Rightarrow> error + world" where
  "set_enabled_calls [] w = Inr w"
| "set_enabled_calls (b # bs) w = and_then (set_enabled b w) (set_enabled_calls bs)"

text \<open>The control methods a caller can invoke on a constructed FrameCryptor.\<close>

datatype control = Set_enabled bool | Set_key_index int32_t
  | Register_observer RtcFrameCryptorObserverWrapper | Unregister_observer

fun control_call :: "control \<Rightarrow> world \<Rightarrow> error + world" where
  "control_call (Set_enabled b) w = set_enabled b w"
| "control_call (Set_key_index i) w = set_key_index i w"
| "control_call (Register_observer ob) w = register_observer ob w"
| "control_call Unregister_observer w = unregister_observer w"

section \<open>Basic facts\<close>

text \<open>The bridge's destructor cannot take a mutex its caller holds.\<close>

lemma unregister_observer_held: "fc_mutex w \<Longrightarrow> unregister_observer w = Inl SelfDeadlock"
  by (simp add: unregister_observer.simps)

lemma delete_bridge_held: "fc_mutex w \<Longrightarrow> delete_NativeFrameCryptorObserver p w = Inl SelfDeadlock"
  by (simp add: delete_NativeFrameCryptorObserver.simps unregister_observer_held)

text \<open>With no observer registered \<^verbatim>\<open>unregister_observer\<close> only clears the transformer's pointer.\<close>

lemma unregister_observer_none:
  "\<not> fc_mutex w \<Longrightarrow> fc_observer w = None \<Longrightarrow>
   unregister_observer w = Inr (unlock (transformer_SetObserver None (lock w)))"
  by (simp add: unregister_observer.simps)

text \<open>With an observer registered the reset deletes the bridge under the mutex.\<close>

lemma unregister_observer_some:
  "\<not> fc_mutex w \<Longrightarrow> fc_observer w = Some p \<Longrightarrow> unregister_observer w = Inl SelfDeadlock"
  by (simp add: unregister_observer.simps delete_bridge_held lock_def)

lemma delete_bridge_free:
  "\<not> fc_mutex w \<Longrightarrow> fc_observer w = None \<Longrightarrow>
   delete_NativeFrameCryptorObserver p w =
     Inr ((unlock (transformer_SetObserver None (lock w)))
            \<lparr>bridges := (bridges w)(p := None)\<rparr>)"
  by (simp add: delete_NativeFrameCryptorObserver.simps unregister_observer_none
      unlock_def lock_def transformer_SetObserver_def)

lemma unregister_observer_Inr:
  "unregister_observer w = Inr w' \<Longrightarrow>
   \<not> fc_mutex w \<and> fc_observer w = None \<and> w' = unlock (transformer_SetObserver None (lock w))"
  by (cases "fc_mutex w"; cases "fc_observer w")
     (auto simp: unregister_observer_held unregister_observer_none unregister_observer_some)

text \<open>The first registration.\<close>

lemma register_observer_none:
  "\<not> fc_mutex w \<Longrightarrow> fc_observer w = None \<Longrightarrow>
   register_observer ob w =
     Inr (unlock (transformer_SetObserver (Some (next_addr w))
       ((lock w)\<lparr>bridges := (bridges w)(next_addr w \<mapsto> \<lparr>b_observer = ob\<rparr>),
                 next_addr := Suc (next_addr w), fc_observer := Some (next_addr w)\<rparr>)))"
  by (simp add: register_observer_def lock_def Let_def)

lemma register_observer_some:
  "\<not> fc_mutex w \<Longrightarrow> fc_observer w = Some p \<Longrightarrow> register_observer ob w = Inl SelfDeadlock"
  by (simp add: register_observer_def lock_def Let_def delete_bridge_held)

lemma register_observer_held: "fc_mutex w \<Longrightarrow> register_observer ob w = Inl SelfDeadlock"
  by (simp add: register_observer_def)

lemma register_observer_Inr:
  "register_observer ob w = Inr w' \<Longrightarrow>
   \<not> fc_mutex w \<and> fc_observer w = None \<and>
   w' = unlock (transformer_SetObserver (Some (next_addr w))
       ((lock w)\<lparr>bridges := (bridges w)(next_addr w \<mapsto> \<lparr>b_observer = ob\<rparr>),
                 next_addr := Suc (next_addr w), fc_observer := Some (next_addr w)\<rparr>))"
  by (cases "fc_mutex w"; cases "fc_observer w")
     (auto simp: register_observer_some register_observer_held register_observer_none)

text \<open>No control method touches the media type of the transformer.\<close>

lemma control_call_media_type:
  "control_call c w = Inr w' \<Longrightarrow> t_media_type (transformer w') = t_media_type (transformer w)"
proof (cases c)
  case (Set_enabled b)
  then show "control_call c w = Inr w' \<Longrightarrow> ?thesis"
    by (auto simp: set_enabled_def unlock_def lock_def transformer_SetEnabled_def
        split: if_splits)
next
  case (Set_key_index i)
  then show "control_call c w = Inr w' \<Longrightarrow> ?thesis"
    by (auto simp: set_key_index_def unlock_def lock_def transformer_SetKeyIndex_def
        split: if_splits)
next
  case (Register_observer ob)
  then show "control_call c w = Inr w' \<Longrightarrow> ?thesis"
    by (auto dest!: register_observer_Inr
        simp: unlock_def lock_def transformer_SetObserver_def)
next
  case Unregister_observer
  then show "control_call c w = Inr w' \<Longrightarrow> ?thesis"
    by (auto dest!: unregister_observer_Inr
        simp: unlock_def lock_def transformer_SetObserver_def)
qed

text \<open>A constructed FrameCryptor is idle and has no observer.\<close>

lemma FrameCryptor_sender_idle:
  "\<exists>w. FrameCryptor_sender d pid alg kp (sndr\<lparr>s_track := Some trk\<rparr>) = Inr w \<and>
       \<not> fc_mutex w \<and> fc_observer w = None \<and> t_observer (transformer w) = None"
  by (simp add: FrameCryptor_sender_def Let_def transformer_SetEnabled_def)

lemma set_enabled_free:
  "\<not> fc_mutex w \<Longrightarrow> set_enabled b w = Inr (unlock (transformer_SetEnabled b (lock w)))"
  by (simp add: set_enabled_def)

text \<open>The flag after a run of \<^verbatim>\<open>set_enabled\<close> calls, by induction on the run.\<close>

lemma set_enabled_calls_flag:
  "\<not> fc_mutex w \<Longrightarrow>
   \<exists>w'. set_enabled_calls bs w = Inr w' \<and> \<not> fc_mutex w' \<and>
        t_enabled (transformer w') = (if bs = [] then t_enabled (transformer w) else last bs)"
proof (induction bs arbitrary: w)
  case Nil
  then show ?case by simp
next
  case (Cons b bs)
  let ?w1 = "unlock (transformer_SetEnabled b (lock w))"
  have free: "\<not> fc_mutex ?w1" by (simp add: unlock_def)
  have flag: "t_enabled (transformer ?w1) = b"
    by (simp add: unlock_def lock_def transformer_SetEnabled_def)
  from Cons.IH [OF free] obtain w' where
    run: "set_enabled_calls bs ?w1 = Inr w'" and idle: "\<not> fc_mutex w'" and
    last: "t_enabled (transformer w') = (if bs = [] then t_enabled (transformer ?w1) else last bs)"
    by blast
  have "set_enabled_calls (b # bs) w = Inr w'"
    using Cons.prems run by (simp add: set_enabled_free)
  moreover have "t_enabled (transformer w') = last (b # bs)"
    using last flag by simp
  ultimately show ?case using idle by simp
qed

text \<open>The FrameCryptor of the scenario of section 8: a sender with an audio track.\<close>

lemma new_audio_sender:
  "\<exists>w. new_frame_cryptor_for_rtp_sender \<lparr>default_enabled = False, default_key_index = 0\<rparr>
          ''participant-1'' AesGcm 0
          \<lparr>s_track = Some \<lparr>kind = ''audio''\<rparr>, encoder_to_packetizer = None\<rparr> = Inr w \<and>
        \<not> fc_mutex w \<and> fc_observer w = None \<and> next_addr w = 0 \<and>
        sender w = Some \<lparr>s_track = Some \<lparr>kind = ''audio''\<rparr>,
                          encoder_to_packetizer = Some E2ee_transformer\<rparr> \<and>
        calls w = [SetEncoderToPacketizerFrameTransformer, SetEnabled False] \<and>
        delivered w = [] \<and> t_participant_id (transformer w) = ''participant-1''"
  by (simp add: new_frame_cryptor_for_rtp_sender_def FrameCryptor_sender_def Let_def
      transformer_SetEnabled_def)

lemma register_observer_twice:
  assumes "\<not> fc_mutex w" and "fc_observer w = None"
  shows "and_then (register_observer o1 w) (register_observer o2) = Inl SelfDeadlock"
proof -
  let ?w1 = "unlock (transformer_SetObserver (Some (next_addr w))
       ((lock w)\<lparr>bridges := (bridges w)(next_addr w \<mapsto> \<lparr>b_observer = o1\<rparr>),
                 next_addr := Suc (next_addr w), fc_observer := Some (next_addr w)\<rparr>))"
  have first: "register_observer o1 w = Inr ?w1"
    using assms by (rule register_observer_none)
  have free: "\<not> fc_mutex ?w1" by (simp add: unlock_def)
  have reg: "fc_observer ?w1 = Some (next_addr w)"
    by (simp add: unlock_def transformer_SetObserver_def)
  from register_observer_some [OF free reg] first show ?thesis by simp
qed

lemma register_then_unregister:
  assumes "\<not> fc_mutex w" and "fc_observer w = None"
  shows "and_then (register_observer o1 w) unregister_observer = Inl SelfDeadlock"
proof -
  let ?w1 = "unlock (transformer_SetObserver (Some (next_addr w))
       ((lock w)\<lparr>bridges := (bridges w)(next_addr w \<mapsto> \<lparr>b_observer = o1\<rparr>),
                 next_addr := Suc (next_addr w), fc_observer := Some (next_addr w)\<rparr>))"
  have first: "register_observer o1 w = Inr ?w1"
    using assms by (rule register_observer_none)
  have free: "\<not> fc_mutex ?w1" by (simp add: unlock_def)
  have reg: "fc_observer ?w1 = Some (next_addr w)"
    by (simp add: unlock_def transformer_SetObserver_def)
  from unregister_observer_some [OF free reg] first show ?thesis by simp
qed

lemma FrameCryptor_dtor_delete_then_empty:
  "\<not> fc_mutex w \<Longrightarrow> fc_observer w = Some p \<Longrightarrow>
   FrameCryptor_dtor Delete_then_empty w = Inl SelfDeadlock"
  by (simp add: FrameCryptor_dtor_def delete_NativeFrameCryptorObserver.simps
      unregister_observer_some)

text \<open>After one registration a state change reaches the application observer once.\<close>

lemma register_then_event:
  assumes "\<not> fc_mutex w" and "fc_observer w = None"
  shows "\<exists>w1 w2. register_observer ob w = Inr w1 \<and> state_change_event st w1 = Inr w2 \<and>
           delivered w2 = delivered w @ [(ob, t_participant_id (transformer w), st)]"
  using register_observer_none [OF assms, of ob]
  by (simp add: state_change_event_def OnFrameCryptionStateChanged_def unlock_def lock_def
      transformer_SetObserver_def)

section \<open>The claims\<close>

text \<open>
  Claim C1, as stated, fails: after a FrameCryptor built for a sender with an audio track
  is destroyed, the sender's transformer slot is not null; it still holds the transformer.
\<close>

theorem destruction_keeps_transformer_attached:
  "map_sum id sender
     (and_then
        (new_frame_cryptor_for_rtp_sender \<lparr>default_enabled = False, default_key_index = 0\<rparr>
           ''participant-1'' AesGcm 0
           \<lparr>s_track = Some \<lparr>kind = ''audio''\<rparr>, encoder_to_packetizer = None\<rparr>)
        (FrameCryptor_dtor Empty_then_delete))
   = Inr (Some \<lparr>s_track = Some \<lparr>kind = ''audio''\<rparr>,
                 encoder_to_packetizer = Some E2ee_transformer\<rparr>)"
proof -
  from new_audio_sender obtain w where
    "new_frame_cryptor_for_rtp_sender \<lparr>default_enabled = False, default_key_index = 0\<rparr>
       ''participant-1'' AesGcm 0
       \<lparr>s_track = Some \<lparr>kind = ''audio''\<rparr>, encoder_to_packetizer = None\<rparr> = Inr w"
    "fc_observer w = None"
    "sender w = Some \<lparr>s_track = Some \<lparr>kind = ''audio''\<rparr>,
                       encoder_to_packetizer = Some E2ee_transformer\<rparr>"
    by blast
  then show ?thesis by (simp add: FrameCryptor_dtor_def)
qed

text \<open>
  Claim C1, amended. Destruction does not detach the transformer. With no observer
  registered it changes nothing. With an observer registered, an idle mutex and an owning
  pointer that is emptied before its object is deleted, the bridge's destructor calls
  \<^verbatim>\<open>unregister_observer\<close> once: the sender and the receiver are as before (the slot still
  holds the transformer), exactly one call clearing the transformer's observer is added to
  the trace, the observer slot and the transformer's observer pointer are null, the bridge
  is freed, and a later state-change event delivers no callback.
\<close>

theorem FrameCryptor_dtor_effect:
  "(fc_observer w = None \<longrightarrow> FrameCryptor_dtor order w = Inr w) \<and>
   (\<not> fc_mutex w \<and> fc_observer w = Some p \<longrightarrow>
      (\<exists>w'. FrameCryptor_dtor Empty_then_delete w = Inr w' \<and>
            sender w' = sender w \<and> receiver w' = receiver w \<and>
            calls w' = calls w @ [SetFrameCryptorTransformerObserver None] \<and>
            fc_observer w' = None \<and> t_observer (transformer w') = None \<and>
            bridges w' p = None \<and> delivered w' = delivered w \<and>
            (\<forall>st. state_change_event st w' = Inr w')))"
proof (intro conjI impI)
  assume "fc_observer w = None"
  then show "FrameCryptor_dtor order w = Inr w" by (simp add: FrameCryptor_dtor_def)
next
  assume a: "\<not> fc_mutex w \<and> fc_observer w = Some p"
  let ?v = "w\<lparr>fc_observer := None\<rparr>"
  let ?w' = "(unlock (transformer_SetObserver None (lock ?v)))\<lparr>bridges := (bridges ?v)(p := None)\<rparr>"
  have free: "\<not> fc_mutex ?v" and none: "fc_observer ?v = None" using a by simp_all
  have "FrameCryptor_dtor Empty_then_delete w = Inr ?w'"
    using a delete_bridge_free [OF free none, of p] by (simp add: FrameCryptor_dtor_def)
  moreover have "sender ?w' = sender w" "receiver ?w' = receiver w"
    "calls ?w' = calls w @ [SetFrameCryptorTransformerObserver None]"
    "fc_observer ?w' = None" "t_observer (transformer ?w') = None"
    "bridges ?w' p = None" "delivered ?w' = delivered w"
    by (simp_all add: unlock_def lock_def transformer_SetObserver_def)
  moreover from \<open>t_observer (transformer ?w') = None\<close>
  have "\<forall>st. state_change_event st ?w' = Inr ?w'"
    by (simp add: state_change_event_def)
  ultimately show "\<exists>w'. FrameCryptor_dtor Empty_then_delete w = Inr w' \<and>
            sender w' = sender w \<and> receiver w' = receiver w \<and>
            calls w' = calls w @ [SetFrameCryptorTransformerObserver None] \<and>
            fc_observer w' = None \<and> t_observer (transformer w') = None \<and>
            bridges w' p = None \<and> delivered w' = delivered w \<and>
            (\<forall>st. state_change_event st w' = Inr w')"
    by blast
qed

text \<open>
  Both cases of the amended claim C1 on the scenario's FrameCryptor, before and after an
  observer is registered.
\<close>

theorem FrameCryptor_dtor_effect_witness:
  "\<exists>w0 w1 w'.
     new_frame_cryptor_for_rtp_sender \<lparr>default_enabled = False, default_key_index = 0\<rparr>
       ''participant-1'' AesGcm 0
       \<lparr>s_track = Some \<lparr>kind = ''audio''\<rparr>, encoder_to_packetizer = None\<rparr> = Inr w0 \<and>
     fc_observer w0 = None \<and> FrameCryptor_dtor Delete_then_empty w0 = Inr w0 \<and>
     register_observer 1 w0 = Inr w1 \<and> \<not> fc_mutex w1 \<and> fc_observer w1 = Some 0 \<and>
     FrameCryptor_dtor Empty_then_delete w1 = Inr w' \<and>
     sender w' = Some \<lparr>s_track = Some \<lparr>kind = ''audio''\<rparr>,
                        encoder_to_packetizer = Some E2ee_transformer\<rparr> \<and>
     calls w' = [SetEncoderToPacketizerFrameTransformer, SetEnabled False,
                 SetFrameCryptorTransformerObserver (Some 0),
                 SetFrameCryptorTransformerObserver None] \<and>
     state_change_event MissingKey w' = Inr w' \<and> delivered w' = []"
proof -
  from new_audio_sender obtain w0 where
    new: "new_frame_cryptor_for_rtp_sender \<lparr>default_enabled = False, default_key_index = 0\<rparr>
       ''participant-1'' AesGcm 0
       \<lparr>s_track = Some \<lparr>kind = ''audio''\<rparr>, encoder_to_packetizer = None\<rparr> = Inr w0"
    and idle0: "\<not> fc_mutex w0" and none0: "fc_observer w0 = None" and addr0: "next_addr w0 = 0"
    and snd0: "sender w0 = Some \<lparr>s_track = Some \<lparr>kind = ''audio''\<rparr>,
                        encoder_to_packetizer = Some E2ee_transformer\<rparr>"
    and calls0: "calls w0 = [SetEncoderToPacketizerFrameTransformer, SetEnabled False]"
    and del0: "delivered w0 = []"
    by blast
  from register_observer_none [OF idle0 none0, of 1] addr0 snd0 calls0 del0 obtain w1 where
    reg: "register_observer 1 w0 = Inr w1" and idle: "\<not> fc_mutex w1"
    and some: "fc_observer w1 = Some 0" and snd1: "sender w1 = sender w0"
    and calls1: "calls w1 = [SetEncoderToPacketizerFrameTransformer, SetEnabled False,
                 SetFrameCryptorTransformerObserver (Some 0)]"
    and del1: "delivered w1 = []"
    by (simp add: unlock_def lock_def transformer_SetObserver_def)
  have d0: "FrameCryptor_dtor Delete_then_empty w0 = Inr w0"
    using FrameCryptor_dtor_effect [of w0 Delete_then_empty] none0 by simp
  from FrameCryptor_dtor_effect [of w1 Delete_then_empty 0] idle some obtain w' where
    "FrameCryptor_dtor Empty_then_delete w1 = Inr w'" "sender w' = sender w1"
    "calls w' = calls w1 @ [SetFrameCryptorTransformerObserver None]"
    "delivered w' = delivered w1" "\<forall>st. state_change_event st w' = Inr w'"
    by blast
  with new none0 d0 reg idle some snd1 snd0 calls1 del1 show ?thesis by auto
qed

text \<open>
  Claim C2, as stated, fails: for a sender with no track the construction does not
  complete; the null track pointer is dereferenced.
\<close>

theorem absent_track_counterexample:
  "new_frame_cryptor_for_rtp_sender \<lparr>default_enabled = False, default_key_index = 0\<rparr>
     ''participant-1'' AesGcm 0 \<lparr>s_track = None, encoder_to_packetizer = None\<rparr>
   = Inl NullDeref"
  by (simp add: new_frame_cryptor_for_rtp_sender_def FrameCryptor_sender_def)

text \<open>
  Claim C2, amended. The constructor for a sender needs an attached track: with an absent
  track it dereferences a null pointer and does not complete. The fallback to video is for
  an attached track whose kind is not "audio"; then construction completes.
\<close>

theorem sender_track_required:
  "FrameCryptor_sender d pid alg kp (sndr\<lparr>s_track := None\<rparr>) = Inl NullDeref \<and>
   (kind trk \<noteq> ''audio'' \<longrightarrow>
      (\<exists>w. FrameCryptor_sender d pid alg kp (sndr\<lparr>s_track := Some trk\<rparr>) = Inr w \<and>
           t_media_type (transformer w) = kVideoFrame))"
  by (simp add: FrameCryptor_sender_def Let_def transformer_SetEnabled_def)

text \<open>
  The amended claim C2 at a track of kind "screen".
\<close>

theorem sender_track_required_witness:
  "kind \<lparr>kind = ''screen''\<rparr> \<noteq> ''audio'' \<and>
   FrameCryptor_sender \<lparr>default_enabled = False, default_key_index = 0\<rparr> ''participant-1''
     kAesGcm 0 \<lparr>s_track = None, encoder_to_packetizer = None\<rparr> = Inl NullDeref \<and>
   (\<exists>w. FrameCryptor_sender \<lparr>default_enabled = False, default_key_index = 0\<rparr> ''participant-1''
          kAesGcm 0 \<lparr>s_track = Some \<lparr>kind = ''screen''\<rparr>, encoder_to_packetizer = None\<rparr> = Inr w \<and>
        t_media_type (transformer w) = kVideoFrame)"
proof -
  have k: "kind \<lparr>kind = ''screen''\<rparr> \<noteq> ''audio''" by simp
  from sender_track_required [where d = "\<lparr>default_enabled = False, default_key_index = 0\<rparr>"
      and pid = "''participant-1''" and alg = kAesGcm and kp = 0
      and sndr = "\<lparr>s_track = None, encoder_to_packetizer = None\<rparr>"
      and trk = "\<lparr>kind = ''screen''\<rparr>"] k
  show ?thesis by simp
qed

text \<open>
  Claim C3 on the code: \<^verbatim>\<open>register_observer(o1)\<close> followed by
  \<^verbatim>\<open>register_observer(o2)\<close> on a fresh FrameCryptor. The second call deletes the first
  bridge while it holds the mutex, the bridge's destructor calls
  \<^verbatim>\<open>unregister_observer\<close>, and the call never returns; o2 is never installed.
\<close>

theorem second_register_observer_deadlocks:
  "and_then
     (and_then
        (new_frame_cryptor_for_rtp_sender \<lparr>default_enabled = False, default_key_index = 0\<rparr>
           ''participant-1'' AesGcm 0
           \<lparr>s_track = Some \<lparr>kind = ''audio''\<rparr>, encoder_to_packetizer = None\<rparr>)
        (register_observer 1))
     (register_observer 2) = Inl SelfDeadlock"
proof -
  from new_audio_sender obtain w where
    "new_frame_cryptor_for_rtp_sender \<lparr>default_enabled = False, default_key_index = 0\<rparr>
       ''participant-1'' AesGcm 0
       \<lparr>s_track = Some \<lparr>kind = ''audio''\<rparr>, encoder_to_packetizer = None\<rparr> = Inr w"
    "\<not> fc_mutex w" "fc_observer w = None" by blast
  then show ?thesis using register_observer_twice [of w 1 2] by simp
qed

text \<open>
  Claim C4 on the code: whenever an observer is registered and the mutex is free, one call
  of \<^verbatim>\<open>register_observer\<close> or of \<^verbatim>\<open>unregister_observer\<close> asks for the mutex a second
  time, through the destructor of the bridge it deletes, and so does destruction when the
  owning pointer is emptied only after the deletion.
\<close>

theorem bridge_destructor_reenters_mutex:
  assumes "\<not> fc_mutex w" and "fc_observer w = Some p"
  shows "register_observer ob w = Inl SelfDeadlock \<and>
         unregister_observer w = Inl SelfDeadlock \<and>
         FrameCryptor_dtor Delete_then_empty w = Inl SelfDeadlock"
  using assms
  by (simp add: register_observer_some unregister_observer_some
      FrameCryptor_dtor_delete_then_empty)

text \<open>
  The re-entry of claim C4 on the scenario's FrameCryptor with observer 1 registered.
\<close>

theorem bridge_destructor_reenters_mutex_witness:
  "\<exists>w. and_then
          (new_frame_cryptor_for_rtp_sender \<lparr>default_enabled = False, default_key_index = 0\<rparr>
             ''participant-1'' AesGcm 0
             \<lparr>s_track = Some \<lparr>kind = ''audio''\<rparr>, encoder_to_packetizer = None\<rparr>)
          (register_observer 1) = Inr w \<and>
       \<not> fc_mutex w \<and> fc_observer w = Some 0 \<and>
       register_observer 2 w = Inl SelfDeadlock \<and>
       unregister_observer w = Inl SelfDeadlock \<and>
       FrameCryptor_dtor Delete_then_empty w = Inl SelfDeadlock"
proof -
  from new_audio_sender obtain w0 where
    new: "new_frame_cryptor_for_rtp_sender \<lparr>default_enabled = False, default_key_index = 0\<rparr>
       ''participant-1'' AesGcm 0
       \<lparr>s_track = Some \<lparr>kind = ''audio''\<rparr>, encoder_to_packetizer = None\<rparr> = Inr w0"
    and idle0: "\<not> fc_mutex w0" and none0: "fc_observer w0 = None" and addr0: "next_addr w0 = 0"
    by blast
  from register_observer_none [OF idle0 none0, of 1] addr0 obtain w where
    reg: "register_observer 1 w0 = Inr w" and idle: "\<not> fc_mutex w"
    and some: "fc_observer w = Some 0"
    by (simp add: unlock_def transformer_SetObserver_def)
  from bridge_destructor_reenters_mutex [OF idle some, of 2] new reg idle some
  show ?thesis by auto
qed

text \<open>
  Claim C5 on the code: \<^verbatim>\<open>register_observer\<close> followed by \<^verbatim>\<open>unregister_observer\<close>.
  The reset of the observer slot deletes the bridge under the mutex and the call never
  returns. (With no observer registered the call is the harmless one of
  \<open>unregister_observer_none\<close>.)
\<close>

theorem unregister_after_register_deadlocks:
  "and_then
     (and_then
        (new_frame_cryptor_for_rtp_sender \<lparr>default_enabled = False, default_key_index = 0\<rparr>
           ''participant-1'' AesGcm 0
           \<lparr>s_track = Some \<lparr>kind = ''audio''\<rparr>, encoder_to_packetizer = None\<rparr>)
        (register_observer 1))
     unregister_observer = Inl SelfDeadlock"
proof -
  from new_audio_sender obtain w where
    "new_frame_cryptor_for_rtp_sender \<lparr>default_enabled = False, default_key_index = 0\<rparr>
       ''participant-1'' AesGcm 0
       \<lparr>s_track = Some \<lparr>kind = ''audio''\<rparr>, encoder_to_packetizer = None\<rparr> = Inr w"
    "\<not> fc_mutex w" "fc_observer w = None" by blast
  then show ?thesis using register_then_unregister [of w 1] by simp
qed

text \<open>
  Claim C6. For a sender and for a receiver with an attached track, and whatever state a
  new transformer starts in, the constructor returns, has made exactly two calls, the
  attachment first and \<^verbatim>\<open>SetEnabled(false)\<close> second, has filled the slot of the sender or
  receiver, and \<^verbatim>\<open>enabled()\<close> returns false.
\<close>

theorem fresh_FrameCryptor_disabled:
  "(\<exists>w. FrameCryptor_sender d pid alg kp (sndr\<lparr>s_track := Some trk\<rparr>) = Inr w \<and>
        calls w = [SetEncoderToPacketizerFrameTransformer, SetEnabled False] \<and>
        sender w = Some (sndr\<lparr>s_track := Some trk, encoder_to_packetizer := Some E2ee_transformer\<rparr>) \<and>
        enabled w = Inr False) \<and>
   (\<exists>w. FrameCryptor_receiver d pid alg kp (rcvr\<lparr>r_track := Some trk\<rparr>) = Inr w \<and>
        calls w = [SetDepacketizerToDecoderFrameTransformer, SetEnabled False] \<and>
        receiver w = Some (rcvr\<lparr>r_track := Some trk, depacketizer_to_decoder := Some E2ee_transformer\<rparr>) \<and>
        enabled w = Inr False)"
  by (simp add: FrameCryptor_sender_def FrameCryptor_receiver_def Let_def
      transformer_SetEnabled_def enabled_def lock_def)

text \<open>
  Claim C7. On an idle FrameCryptor every non-empty run of \<^verbatim>\<open>set_enabled\<close> calls
  returns, and \<^verbatim>\<open>enabled()\<close> then returns the argument of the last call of the run.
\<close>

theorem enabled_returns_last_set:
  assumes "\<not> fc_mutex w" and "bs \<noteq> []"
  shows "\<exists>w'. set_enabled_calls bs w = Inr w' \<and> enabled w' = Inr (last bs)"
proof -
  from set_enabled_calls_flag [OF assms(1), of bs] obtain w' where
    "set_enabled_calls bs w = Inr w'" "\<not> fc_mutex w'" "t_enabled (transformer w') = last bs"
    using assms(2) by auto
  then show ?thesis by (auto simp: enabled_def lock_def)
qed

text \<open>
  Claim C7 on the scenario's FrameCryptor and the run true, false, true, false.
\<close>

theorem enabled_returns_last_set_witness:
  "\<exists>w w'. new_frame_cryptor_for_rtp_sender \<lparr>default_enabled = False, default_key_index = 0\<rparr>
            ''participant-1'' AesGcm 0
            \<lparr>s_track = Some \<lparr>kind = ''audio''\<rparr>, encoder_to_packetizer = None\<rparr> = Inr w \<and>
          \<not> fc_mutex w \<and> [True, False, True, False] \<noteq> [] \<and>
          set_enabled_calls [True, False, True, False] w = Inr w' \<and> enabled w' = Inr False"
proof -
  obtain w where
    new: "new_frame_cryptor_for_rtp_sender \<lparr>default_enabled = False, default_key_index = 0\<rparr>
            ''participant-1'' AesGcm 0
            \<lparr>s_track = Some \<lparr>kind = ''audio''\<rparr>, encoder_to_packetizer = None\<rparr> = Inr w"
    and idle: "\<not> fc_mutex w"
    by (simp add: new_frame_cryptor_for_rtp_sender_def FrameCryptor_sender_def Let_def
        transformer_SetEnabled_def)
  have ne: "[True, False, True, False] \<noteq> []" by simp
  from enabled_returns_last_set [OF idle ne] new idle show ?thesis by auto
qed

text \<open>
  Claim C8. On an idle FrameCryptor \<^verbatim>\<open>set_key_index(k)\<close> returns for every 32-bit \<open>k\<close>,
  and \<^verbatim>\<open>key_index()\<close> then returns \<open>k\<close>; no value is rejected.
\<close>

theorem key_index_returns_set_value:
  assumes "\<not> fc_mutex w"
  shows "\<exists>w'. set_key_index k w = Inr w' \<and> key_index w' = Inr k"
  using assms
  by (simp add: set_key_index_def key_index_def unlock_def lock_def transformer_SetKeyIndex_def)

text \<open>
  Claim C8 at the negative index -1.
\<close>

theorem key_index_returns_set_value_witness:
  "\<exists>w w'. new_frame_cryptor_for_rtp_sender \<lparr>default_enabled = False, default_key_index = 0\<rparr>
            ''participant-1'' AesGcm 0
            \<lparr>s_track = Some \<lparr>kind = ''audio''\<rparr>, encoder_to_packetizer = None\<rparr> = Inr w \<and>
          \<not> fc_mutex w \<and> set_key_index (- 1) w = Inr w' \<and> key_index w' = Inr (- 1) \<and>
          sint (- 1 :: int32_t) = - 1"
proof -
  obtain w where
    new: "new_frame_cryptor_for_rtp_sender \<lparr>default_enabled = False, default_key_index = 0\<rparr>
            ''participant-1'' AesGcm 0
            \<lparr>s_track = Some \<lparr>kind = ''audio''\<rparr>, encoder_to_packetizer = None\<rparr> = Inr w"
    and idle: "\<not> fc_mutex w"
    by (simp add: new_frame_cryptor_for_rtp_sender_def FrameCryptor_sender_def Let_def
        transformer_SetEnabled_def)
  from key_index_returns_set_value [OF idle, of "- 1"] new idle show ?thesis by auto
qed

text \<open>
  Claim C9. \<^verbatim>\<open>AesGcm\<close> is mapped to AES-GCM, \<^verbatim>\<open>AesCbc\<close> to AES-CBC and every other
  value to AES-GCM; the mapping is total.
\<close>

theorem algorithm_mapping:
  "AlgorithmToFrameCryptorAlgorithm AesGcm = kAesGcm \<and>
   AlgorithmToFrameCryptorAlgorithm AesCbc = kAesCbc \<and>
   (\<forall>raw. AlgorithmToFrameCryptorAlgorithm (Algorithm_other raw) = kAesGcm)"
  by simp

text \<open>
  Claim C10. Both constructors give the transformer the audio media type exactly when the
  kind of the attached track equals the string "audio", and the video media type for
  every other kind. No control method and no state-change event changes the media type
  afterwards.
\<close>

theorem media_type_classification:
  "(\<exists>w. FrameCryptor_sender d pid alg kp (sndr\<lparr>s_track := Some trk\<rparr>) = Inr w \<and>
        t_media_type (transformer w) =
          (if kind trk = ''audio'' then kAudioFrame else kVideoFrame)) \<and>
   (\<exists>w. FrameCryptor_receiver d pid alg kp (rcvr\<lparr>r_track := Some trk\<rparr>) = Inr w \<and>
        t_media_type (transformer w) =
          (if kind trk = ''audio'' then kAudioFrame else kVideoFrame)) \<and>
   (\<forall>c w w'. control_call c w = Inr w' \<longrightarrow>
        t_media_type (transformer w') = t_media_type (transformer w)) \<and>
   (\<forall>st w w'. state_change_event st w = Inr w' \<longrightarrow>
        t_media_type (transformer w') = t_media_type (transformer w))"
proof (intro conjI allI impI)
  show "\<exists>w. FrameCryptor_sender d pid alg kp (sndr\<lparr>s_track := Some trk\<rparr>) = Inr w \<and>
        t_media_type (transformer w) =
          (if kind trk = ''audio'' then kAudioFrame else kVideoFrame)"
    by (simp add: FrameCryptor_sender_def Let_def transformer_SetEnabled_def)
  show "\<exists>w. FrameCryptor_receiver d pid alg kp (rcvr\<lparr>r_track := Some trk\<rparr>) = Inr w \<and>
        t_media_type (transformer w) =
          (if kind trk = ''audio'' then kAudioFrame else kVideoFrame)"
    by (simp add: FrameCryptor_receiver_def Let_def transformer_SetEnabled_def)
next
  fix c w w' assume "control_call c w = Inr w'"
  then show "t_media_type (transformer w') = t_media_type (transformer w)"
    by (rule control_call_media_type)
next
  fix st w w' assume "state_change_event st w = Inr w'"
  then show "t_media_type (transformer w') = t_media_type (transformer w)"
    by (auto simp: state_change_event_def OnFrameCryptionStateChanged_def
        split: option.splits)
qed

text \<open>
  Claim C10 at the kind "Audio", which differs from "audio" in case and is classified as
  video, before and after a registration.
\<close>

theorem media_type_classification_witness:
  "\<exists>w w'. FrameCryptor_sender \<lparr>default_enabled = False, default_key_index = 0\<rparr>
            ''participant-1'' kAesGcm 0
            \<lparr>s_track = Some \<lparr>kind = ''Audio''\<rparr>, encoder_to_packetizer = None\<rparr> = Inr w \<and>
          t_media_type (transformer w) = kVideoFrame \<and>
          control_call (Register_observer 7) w = Inr w' \<and>
          t_media_type (transformer w') = kVideoFrame"
proof -
  let ?s = "\<lparr>s_track = Some \<lparr>kind = ''Audio''\<rparr>, encoder_to_packetizer = None\<rparr>"
  let ?d = "\<lparr>default_enabled = False, default_key_index = 0\<rparr>"
  have cls: "\<exists>w. FrameCryptor_sender ?d ''participant-1'' kAesGcm 0 (?s\<lparr>s_track := Some \<lparr>kind = ''Audio''\<rparr>\<rparr>) = Inr w \<and>
        t_media_type (transformer w) =
          (if kind \<lparr>kind = ''Audio''\<rparr> = ''audio'' then kAudioFrame else kVideoFrame)"
    and keep: "\<forall>c w w'. control_call c w = Inr w' \<longrightarrow>
        t_media_type (transformer w') = t_media_type (transformer w)"
    using media_type_classification [where d = ?d and pid = "''participant-1''" and alg = kAesGcm
        and kp = 0 and sndr = ?s and trk = "\<lparr>kind = ''Audio''\<rparr>"]
    by blast+
  from cls obtain w where
    new: "FrameCryptor_sender ?d ''participant-1'' kAesGcm 0 ?s = Inr w"
    and mt: "t_media_type (transformer w) = kVideoFrame"
    by auto
  from FrameCryptor_sender_idle [where d = ?d and pid = "''participant-1''" and alg = kAesGcm
        and kp = 0 and sndr = ?s and trk = "\<lparr>kind = ''Audio''\<rparr>"] new
  have idle: "\<not> fc_mutex w" and none: "fc_observer w = None" by auto
  from register_observer_none [OF idle none, of 7] obtain w' where
    reg: "control_call (Register_observer 7) w = Inr w'" by simp
  with keep mt have "t_media_type (transformer w') = kVideoFrame" by metis
  with new mt reg show ?thesis by blast
qed

end
